theory Spec2Isabelle
  imports Complex_Main
begin

section \<open>Numbers as the scoring function sees them\<close>

text \<open>
  The metrics and the scores of \<^verbatim>\<open>score.py\<close> are Python numbers: \<^verbatim>\<open>None\<close> is kept apart
  (it is the absence of a value, see \<open>get_val\<close>), and a number is a not-a-number, one of
  the two infinities, or a finite value. The finite values are taken as reals: rounding
  and the overflow of very large values are not part of this model, and an integer score
  such as \<^verbatim>\<open>5\<close> is the finite value \<open>Fin 5\<close>.
\<close>

datatype pynum = NaN | PInf | NInf | Fin real

datatype error = ZeroDivisionError

text \<open>\<^verbatim>\<open>np.isnan(val)\<close>: true on not-a-number only, false on both infinities.\<close>

fun isnan :: "pynum \<Rightarrow> bool" where
  "isnan NaN = True"
| "isnan PInf = False"
| "isnan NInf = False"
| "isnan (Fin r) = False"

text \<open>\<^verbatim>\<open>a < b\<close>: every comparison with a not-a-number is false.\<close>

fun py_lt :: "pynum \<Rightarrow> pynum \<Rightarrow> bool" where
  "py_lt (Fin a) (Fin b) = (a < b)"
| "py_lt (Fin a) PInf = True"
| "py_lt (Fin a) NInf = False"
| "py_lt (Fin a) NaN = False"
| "py_lt PInf b = False"
| "py_lt NInf (Fin b) = True"
| "py_lt NInf PInf = True"
| "py_lt NInf NInf = False"
| "py_lt NInf NaN = False"
| "py_lt NaN b = False"

text \<open>\<^verbatim>\<open>a > b\<close>\<close>

definition py_gt :: "pynum \<Rightarrow> pynum \<Rightarrow> bool" where
  "py_gt a b = py_lt b a"

text \<open>\<^verbatim>\<open>a == b\<close>: a not-a-number equals nothing, itself included.\<close>

definition py_eq :: "pynum \<Rightarrow> pynum \<Rightarrow> bool" where
  "py_eq a b = (\<not> isnan a \<and> \<not> isnan b \<and> a = b)"

text \<open>The infinity with the sign of \<open>r\<close>; a not-a-number for \<open>r = 0\<close>.\<close>

definition signed_inf :: "real \<Rightarrow> pynum" where
  "signed_inf r = (if 0 < r then PInf else if r < 0 then NInf else NaN)"

text \<open>\<^verbatim>\<open>a * b\<close>\<close>

fun py_mul :: "pynum \<Rightarrow> pynum \<Rightarrow> pynum" where
  "py_mul (Fin a) (Fin b) = Fin (a * b)"
| "py_mul (Fin a) PInf = signed_inf a"
| "py_mul (Fin a) NInf = signed_inf (- a)"
| "py_mul (Fin a) NaN = NaN"
| "py_mul PInf (Fin b) = signed_inf b"
| "py_mul PInf PInf = PInf"
| "py_mul PInf NInf = NInf"
| "py_mul PInf NaN = NaN"
| "py_mul NInf (Fin b) = signed_inf (- b)"
| "py_mul NInf PInf = NInf"
| "py_mul NInf NInf = PInf"
| "py_mul NInf NaN = NaN"
| "py_mul NaN b = NaN"

text \<open>\<^verbatim>\<open>a + b\<close>\<close>

fun py_add :: "pynum \<Rightarrow> pynum \<Rightarrow> pynum" where
  "py_add (Fin a) (Fin b) = Fin (a + b)"
| "py_add (Fin a) PInf = PInf"
| "py_add (Fin a) NInf = NInf"
| "py_add (Fin a) NaN = NaN"
| "py_add PInf (Fin b) = PInf"
| "py_add PInf PInf = PInf"
| "py_add PInf NInf = NaN"
| "py_add PInf NaN = NaN"
| "py_add NInf (Fin b) = NInf"
| "py_add NInf PInf = NaN"
| "py_add NInf NInf = NInf"
| "py_add NInf NaN = NaN"
| "py_add NaN b = NaN"

text \<open>
  \<^verbatim>\<open>a / n\<close> for an integer \<open>n\<close> (the only division of the source divides by
  \<^verbatim>\<open>len(factor_scores) * 5\<close>): Python raises \<^verbatim>\<open>ZeroDivisionError\<close> when \<open>n\<close> is zero.
\<close>

definition py_truediv :: "pynum \<Rightarrow> int \<Rightarrow> error + pynum" where
  "py_truediv a n =
     (if n = 0 then Inl ZeroDivisionError
      else Inr (case a of
                  Fin r \<Rightarrow> Fin (r / real_of_int n)
                | PInf \<Rightarrow> signed_inf (real_of_int n)
                | NInf \<Rightarrow> signed_inf (- real_of_int n)
                | NaN \<Rightarrow> NaN))"

text \<open>\<^verbatim>\<open>sum(values)\<close>: starts from \<^verbatim>\<open>0\<close> and adds from the left.\<close>

definition py_sum :: "pynum list \<Rightarrow> pynum" where
  "py_sum vs = foldl py_add (Fin 0) vs"

section \<open>Dictionaries\<close>

text \<open>
  A Python \<^verbatim>\<open>dict\<close> with string keys, in insertion order: an association list.
  \<open>dict_set\<close> is \<^verbatim>\<open>d[k] = v\<close>: an existing key keeps its place and takes the new
  value, a new key goes to the end.
\<close>

type_synonym 'v dict = "(string \<times> 'v) list"

fun dict_set :: "'v dict \<Rightarrow> string \<Rightarrow> 'v \<Rightarrow> 'v dict" where
  "dict_set [] k v = [(k, v)]"
| "dict_set ((k', v') # d) k v =
     (if k' = k then (k, v) # d else (k', v') # dict_set d k v)"

text \<open>\<^verbatim>\<open>d.get(k)\<close>\<close>

definition dict_get :: "'v dict \<Rightarrow> string \<Rightarrow> 'v option" where
  "dict_get d k = map_of d k"

text \<open>\<^verbatim>\<open>d.keys()\<close>, \<^verbatim>\<open>d.values()\<close>\<close>

definition dict_keys :: "'v dict \<Rightarrow> string list" where
  "dict_keys d = map fst d"

definition dict_values :: "'v dict \<Rightarrow> 'v list" where
  "dict_values d = map snd d"

text \<open>A list is a dictionary when no key occurs twice.\<close>

definition is_dict :: "'v dict \<Rightarrow> bool" where
  "is_dict d = distinct (map fst d)"

section \<open>The input\<close>

text \<open>
  The metrics are read with \<^verbatim>\<open>quantitative.get(key)\<close> only, so they are a map from the
  metric's name to its value; a key that is missing and a key bound to \<^verbatim>\<open>None\<close> both
  read as \<open>None\<close>. The argument \<^verbatim>\<open>stock\<close> may or may not have each of its two entries.
\<close>

type_synonym metrics = "string \<rightharpoonup> pynum"

record stock =
  quantitative :: "metrics option"
  qualitative :: "pynum dict option"

text \<open>\<^verbatim>\<open>stock.get('quantitative', {})\<close> and \<^verbatim>\<open>stock.get('qualitative', {})\<close>\<close>

definition get_quantitative :: "stock \<Rightarrow> metrics" where
  "get_quantitative s = (case quantitative s of None \<Rightarrow> Map.empty | Some q \<Rightarrow> q)"

definition get_qualitative :: "stock \<Rightarrow> pynum dict" where
  "get_qualitative s = (case qualitative s of None \<Rightarrow> [] | Some q \<Rightarrow> q)"

section \<open>The scoring function\<close>

text \<open>
  \<^verbatim>\<open>def get_val(key, default=np.nan):
      val = quantitative.get(key)
      return default if val is None or np.isnan(val) else val\<close>
\<close>

definition get_val :: "metrics \<Rightarrow> string \<Rightarrow> pynum \<Rightarrow> pynum" where
  "get_val quant key dflt =
     (case quant key of
        None \<Rightarrow> dflt
      | Some val \<Rightarrow> if isnan val then dflt else val)"

text \<open>
  Lines 17 to 80 of \<^verbatim>\<open>score.py\<close>: the quantitative factors, each read with its own
  default and written into \<^verbatim>\<open>factor_scores\<close>, in the order of the source.
\<close>

definition quantitative_scores :: "metrics \<Rightarrow> pynum dict" where
  "quantitative_scores quant =
    (let factor_scores = [];
         mc = get_val quant ''market_cap'' (Fin 0);
         factor_scores = dict_set factor_scores ''market_cap''
           (if py_lt mc (Fin (100 * 10 ^ 9)) then Fin 5
            else if py_lt mc (Fin (500 * 10 ^ 9)) then Fin 4
            else if py_lt mc (Fin (2000 * 10 ^ 9)) then Fin 3
            else if py_lt mc (Fin (5000 * 10 ^ 9)) then Fin 2 else Fin 0);
         sp = get_val quant ''stock_price'' (Fin 0);
         factor_scores = dict_set factor_scores ''stock_price''
           (if py_lt sp (Fin 500) then Fin 5
            else if py_lt sp (Fin 1000) then Fin 4
            else if py_lt sp (Fin 2000) then Fin 3 else Fin 0);
         eps_growth = py_mul (get_val quant ''eps_growth_5y'' (Fin 0)) (Fin 100);
         factor_scores = dict_set factor_scores ''eps_growth_5y''
           (if py_gt eps_growth (Fin 20) then Fin 5
            else if py_gt eps_growth (Fin 10) then Fin 3 else Fin 0);
         roe = py_mul (get_val quant ''roe'' (Fin 0)) (Fin 100);
         factor_scores = dict_set factor_scores ''roe''
           (if py_gt roe (Fin 15) then Fin 5
            else if py_gt roe (Fin 10) then Fin 3 else Fin 0);
         roce = py_mul (get_val quant ''roce'' (Fin 0)) (Fin 100);
         factor_scores = dict_set factor_scores ''roce''
           (if py_gt roce (Fin 15) then Fin 5
            else if py_gt roce (Fin 10) then Fin 3 else Fin 0);
         op_margin = py_mul (get_val quant ''operating_margin'' (Fin 0)) (Fin 100);
         factor_scores = dict_set factor_scores ''operating_margin''
           (if py_gt op_margin (Fin 20) then Fin 5
            else if py_gt op_margin (Fin 10) then Fin 3 else Fin 0);
         net_margin = py_mul (get_val quant ''net_margin'' (Fin 0)) (Fin 100);
         factor_scores = dict_set factor_scores ''net_margin''
           (if py_gt net_margin (Fin 15) then Fin 5
            else if py_gt net_margin (Fin 7) then Fin 3 else Fin 0);
         de_ratio = get_val quant ''de_ratio'' PInf;
         factor_scores = dict_set factor_scores ''de_ratio''
           (if py_lt de_ratio (Fin 0.5) then Fin 5
            else if py_lt de_ratio (Fin 1) then Fin 3 else Fin 0);
         interest_coverage = get_val quant ''interest_coverage'' (Fin 0);
         factor_scores = dict_set factor_scores ''interest_coverage''
           (if py_gt interest_coverage (Fin 3) then Fin 5
            else if py_gt interest_coverage (Fin 1.5) then Fin 3 else Fin 0);
         current_ratio = get_val quant ''current_ratio'' (Fin 0);
         factor_scores = dict_set factor_scores ''current_ratio''
           (if py_gt current_ratio (Fin 1.5) then Fin 5
            else if py_gt current_ratio (Fin 1.2) then Fin 3 else Fin 0);
         free_cash_flow = get_val quant ''free_cash_flow'' (Fin 0);
         factor_scores = dict_set factor_scores ''free_cash_flow''
           (if py_gt free_cash_flow (Fin 0) then Fin 5 else Fin 0);
         revenue_growth = py_mul (get_val quant ''revenue_growth_5y'' (Fin 0)) (Fin 100);
         factor_scores = dict_set factor_scores ''revenue_growth_5y''
           (if py_gt revenue_growth (Fin 15) then Fin 5
            else if py_gt revenue_growth (Fin 10) then Fin 3 else Fin 0);
         profit_growth = py_mul (get_val quant ''profit_growth_5y'' (Fin 0)) (Fin 100);
         factor_scores = dict_set factor_scores ''profit_growth_5y''
           (if py_gt profit_growth (Fin 20) then Fin 5
            else if py_gt profit_growth (Fin 10) then Fin 3 else Fin 0);
         cash_flow_growth = get_val quant ''cash_flow_growth'' (Fin 0);
         factor_scores = dict_set factor_scores ''cash_flow_growth''
           (if py_gt cash_flow_growth (Fin 15) then Fin 5
            else if py_gt cash_flow_growth (Fin 10) then Fin 3 else Fin 0);
         pe = get_val quant ''pe_ratio'' PInf;
         factor_scores = dict_set factor_scores ''pe_ratio''
           (if py_lt pe (Fin 15) then Fin 5
            else if py_lt pe (Fin 25) then Fin 3 else Fin 0);
         peg = get_val quant ''peg_ratio'' PInf;
         factor_scores = dict_set factor_scores ''peg_ratio''
           (if py_lt peg (Fin 1) then Fin 5
            else if py_lt peg (Fin 2) then Fin 3 else Fin 0);
         pb = get_val quant ''pb_ratio'' PInf;
         factor_scores = dict_set factor_scores ''pb_ratio''
           (if py_lt pb (Fin 1.5) then Fin 5
            else if py_lt pb (Fin 2.5) then Fin 3 else Fin 0);
         ev_ebitda = get_val quant ''ev_ebitda'' PInf;
         factor_scores = dict_set factor_scores ''ev_ebitda''
           (if py_lt ev_ebitda (Fin 10) then Fin 5
            else if py_lt ev_ebitda (Fin 15) then Fin 3 else Fin 0);
         liquidity = get_val quant ''liquidity'' (Fin 0);
         factor_scores = dict_set factor_scores ''liquidity''
           (if py_gt liquidity (Fin 100000) then Fin 5
            else if py_gt liquidity (Fin 50000) then Fin 3 else Fin 0);
         promoter_holding = get_val quant ''promoter_holding'' (Fin 0);
         factor_scores = dict_set factor_scores ''promoter_holding''
           (if py_gt promoter_holding (Fin 50) then Fin 5
            else if py_gt promoter_holding (Fin 30) then Fin 3 else Fin 0);
         promoter_holding_growth = get_val quant ''promoter_holding_growth'' (Fin 0);
         factor_scores = dict_set factor_scores ''promoter_holding_growth''
           (if py_gt promoter_holding_growth (Fin 0) then Fin 5
            else if py_eq promoter_holding_growth (Fin 0) then Fin 3 else Fin 0)
     in factor_scores)"

text \<open>
  Lines 84 to 86: \<^verbatim>\<open>for factor, value in qualitative.items(): factor_scores[factor] = value\<close>
\<close>

fun qualitative_loop :: "pynum dict \<Rightarrow> pynum dict \<Rightarrow> pynum dict" where
  "qualitative_loop factor_scores [] = factor_scores"
| "qualitative_loop factor_scores ((factor, val) # items) =
     qualitative_loop (dict_set factor_scores factor val) items"

text \<open>
  Lines 89 to 92: the total, the largest possible score and the percentage of a
  breakdown. The division is reached only behind the guard
  \<^verbatim>\<open>if max_possible_score > 0 else 0\<close>.
\<close>

definition max_possible_score :: "pynum dict \<Rightarrow> int" where
  "max_possible_score factor_scores = int (length factor_scores) * 5"

definition aggregate_scores :: "pynum dict \<Rightarrow> error + pynum \<times> pynum \<times> pynum dict" where
  "aggregate_scores factor_scores =
     (let total_score = py_sum (dict_values factor_scores)
      in if max_possible_score factor_scores > 0
         then (case py_truediv total_score (max_possible_score factor_scores) of
                 Inl e \<Rightarrow> Inl e
               | Inr ratio \<Rightarrow> Inr (total_score, py_mul ratio (Fin 100), factor_scores))
         else Inr (total_score, Fin 0, factor_scores))"

definition multibagger_score_two_dim ::
    "stock \<Rightarrow> error + pynum \<times> pynum \<times> pynum dict" where
  "multibagger_score_two_dim s =
     (let quant = get_quantitative s;
          factor_scores = quantitative_scores quant;
          qual = get_qualitative s;
          factor_scores = qualitative_loop factor_scores qual
      in aggregate_scores factor_scores)"

text \<open>
  The three components of what the function returns, for a given input:
  \<^verbatim>\<open>total_score\<close>, \<^verbatim>\<open>percentage_score\<close> and the entry of \<^verbatim>\<open>factor_scores\<close> under a name
  (\<open>None\<close> when the function raises or the name is not a key).
\<close>

definition total_score_of :: "stock \<Rightarrow> pynum option" where
  "total_score_of s =
     (case multibagger_score_two_dim s of
        Inl e \<Rightarrow> None
      | Inr (total_score, percentage_score, factor_scores) \<Rightarrow> Some total_score)"

definition percentage_score_of :: "stock \<Rightarrow> pynum option" where
  "percentage_score_of s =
     (case multibagger_score_two_dim s of
        Inl e \<Rightarrow> None
      | Inr (total_score, percentage_score, factor_scores) \<Rightarrow> Some percentage_score)"

definition factor_score_of :: "stock \<Rightarrow> string \<Rightarrow> pynum option" where
  "factor_score_of s k =
     (case multibagger_score_two_dim s of
        Inl e \<Rightarrow> None
      | Inr (total_score, percentage_score, factor_scores) \<Rightarrow> dict_get factor_scores k)"

definition factor_count_of :: "stock \<Rightarrow> nat option" where
  "factor_count_of s =
     (case multibagger_score_two_dim s of
        Inl e \<Rightarrow> None
      | Inr (total_score, percentage_score, factor_scores) \<Rightarrow> Some (length factor_scores))"

text \<open>The names of the quantitative factors, in the order the source writes them.\<close>

definition quantitative_names :: "string list" where
  "quantitative_names =
     [''market_cap'', ''stock_price'', ''eps_growth_5y'', ''roe'', ''roce'',
      ''operating_margin'', ''net_margin'', ''de_ratio'', ''interest_coverage'',
      ''current_ratio'', ''free_cash_flow'', ''revenue_growth_5y'', ''profit_growth_5y'',
      ''cash_flow_growth'', ''pe_ratio'', ''peg_ratio'', ''pb_ratio'', ''ev_ebitda'',
      ''liquidity'', ''promoter_holding'', ''promoter_holding_growth'']"

text \<open>The breakdown after both passes, before the totals are taken.\<close>

definition final_scores :: "stock \<Rightarrow> pynum dict" where
  "final_scores s =
     qualitative_loop (quantitative_scores (get_quantitative s)) (get_qualitative s)"

section \<open>The defaults as the specification lists them\<close>

text \<open>
  The specification gives one default per factor: plus infinity for the five ratios
  where lower is better, zero for every other factor. \<open>substitute_defaults\<close> writes
  that default into a metrics record wherever the metric is \<^verbatim>\<open>None\<close> or not-a-number,
  and leaves every other value, the infinities included, as it is. Both are compared
  with what \<open>get_val\<close> does in the source.
\<close>

definition spec_default :: "string \<Rightarrow> pynum" where
  "spec_default k =
     (if k \<in> {''de_ratio'', ''pe_ratio'', ''peg_ratio'', ''pb_ratio'', ''ev_ebitda''}
      then PInf else Fin 0)"

definition substitute_defaults :: "metrics \<Rightarrow> metrics" where
  "substitute_defaults quant =
     (\<lambda>k. if quant k = None \<or> quant k = Some NaN then Some (spec_default k) else quant k)"

section \<open>Dictionary updates\<close>

lemma dict_set_keys:
  "map fst (dict_set d k v) = (if k \<in> set (map fst d) then map fst d else map fst d @ [k])"
  by (induction d) force+

lemma dict_set_map_of: "map_of (dict_set d k v) = (map_of d)(k \<mapsto> v)"
  by (induction d) auto

lemma dict_set_distinct: "distinct (map fst d) \<Longrightarrow> distinct (map fst (dict_set d k v))"
  by (simp add: dict_set_keys)

lemma distinct_one_entry:
  "distinct (map fst d) \<Longrightarrow> k \<in> set (map fst d) \<Longrightarrow> count_list (map fst d) k = 1"
  by (induction d) auto

lemma card_noncolliding:
  assumes "distinct ks"
  shows "card (set ks - A) = length (filter (\<lambda>k. k \<notin> A) ks)"
proof -
  from assms have "distinct (filter (\<lambda>k. k \<notin> A) ks)" by simp
  then have "card (set (filter (\<lambda>k. k \<notin> A) ks)) = length (filter (\<lambda>k. k \<notin> A) ks)"
    by (rule distinct_card)
  moreover have "set (filter (\<lambda>k. k \<notin> A) ks) = set ks - A" by auto
  ultimately show ?thesis by simp
qed

section \<open>The loop over the qualitative entries\<close>

lemma qualitative_loop_keys:
  "fst ` set (qualitative_loop d items) = fst ` set d \<union> fst ` set items"
proof (induction d items rule: qualitative_loop.induct)
  case (1 d)
  show ?case by simp
next
  case (2 d factor val items)
  have "fst ` set (dict_set d factor val) = insert factor (fst ` set d)"
    using arg_cong [OF dict_set_keys [of d factor val], of set] by auto
  with 2 show ?case by simp
qed

lemma qualitative_loop_distinct:
  "distinct (map fst d) \<Longrightarrow> distinct (map fst (qualitative_loop d items))"
  by (induction d items rule: qualitative_loop.induct) (simp_all add: dict_set_distinct)

lemma qualitative_loop_other:
  "k \<notin> set (map fst items) \<Longrightarrow> map_of (qualitative_loop d items) k = map_of d k"
  by (induction d items rule: qualitative_loop.induct) (auto simp: dict_set_map_of)

lemma qualitative_loop_supplied:
  "distinct (map fst items) \<Longrightarrow> (k, v) \<in> set items \<Longrightarrow>
   map_of (qualitative_loop d items) k = Some v"
proof (induction d items rule: qualitative_loop.induct)
  case (1 d)
  then show ?case by simp
next
  case (2 d factor val items)
  show ?case
  proof (cases "(k, v) = (factor, val)")
    case True
    with 2 have "k \<notin> set (map fst items)" by auto
    then show ?thesis using True by (simp add: qualitative_loop_other dict_set_map_of)
  next
    case False
    with 2 show ?thesis by auto
  qed
qed

lemma qualitative_loop_length:
  assumes "distinct (map fst d)"
  shows "length (qualitative_loop d items) =
         length d + card (set (map fst items) - set (map fst d))"
proof -
  have "length (qualitative_loop d items) = length (map fst (qualitative_loop d items))"
    by simp
  also have "\<dots> = card (set (map fst (qualitative_loop d items)))"
    using distinct_card [OF qualitative_loop_distinct [OF assms, of items]] by simp
  also have "\<dots> = card (set (map fst d) \<union> (set (map fst items) - set (map fst d)))"
    by (simp add: qualitative_loop_keys)
  also have "\<dots> = card (set (map fst d)) + card (set (map fst items) - set (map fst d))"
    by (rule card_Un_disjoint) auto
  also have "card (set (map fst d)) = length d"
    using assms distinct_card [of "map fst d"] by simp
  finally show ?thesis .
qed

lemma qualitative_loop_nonempty: "d \<noteq> [] \<Longrightarrow> qualitative_loop d items \<noteq> []"
  by (induction d items rule: qualitative_loop.induct)
     (auto simp: neq_Nil_conv elim: dict_set.elims)

section \<open>The quantitative pass\<close>

lemma quantitative_scores_keys: "map fst (quantitative_scores q) = quantitative_names"
  by (simp add: quantitative_scores_def quantitative_names_def Let_def split del: if_split)

lemma quantitative_names_distinct: "distinct quantitative_names"
  by (simp add: quantitative_names_def)

lemma quantitative_names_length: "length quantitative_names = 21"
  by (simp add: quantitative_names_def)

lemma quantitative_scores_key_set:
  "fst ` set (quantitative_scores q) = set quantitative_names"
  using arg_cong [OF quantitative_scores_keys [of q], of set] by simp

lemma quantitative_scores_length: "length (quantitative_scores q) = 21"
  using arg_cong [OF quantitative_scores_keys [of q], of length] quantitative_names_length
  by simp

lemma quantitative_scores_nonempty: "quantitative_scores q \<noteq> []"
  using quantitative_scores_length [of q] by auto

lemma quantitative_scores_ranges:
  "(k, v) \<in> set (quantitative_scores q) \<Longrightarrow>
   v \<in> (if k = ''market_cap'' then {Fin 0, Fin 2, Fin 3, Fin 4, Fin 5}
        else if k = ''stock_price'' then {Fin 0, Fin 3, Fin 4, Fin 5}
        else {Fin 0, Fin 3, Fin 5})"
  apply (simp add: quantitative_scores_def Let_def split del: if_split)
  apply (elim disjE)
  apply simp_all
  done

lemma quantitative_entry_range:
  assumes "k \<in> set quantitative_names"
  shows "\<exists>v. dict_get (quantitative_scores q) k = Some v \<and>
     v \<in> (if k = ''market_cap'' then {Fin 0, Fin 2, Fin 3, Fin 4, Fin 5}
          else if k = ''stock_price'' then {Fin 0, Fin 3, Fin 4, Fin 5}
          else {Fin 0, Fin 3, Fin 5})"
proof -
  have "k \<in> fst ` set (quantitative_scores q)"
    using assms by (simp add: quantitative_scores_key_set)
  then obtain v where v: "map_of (quantitative_scores q) k = Some v"
    by (metis map_of_eq_None_iff not_Some_eq)
  then have "(k, v) \<in> set (quantitative_scores q)" by (rule map_of_SomeD)
  then show ?thesis using v quantitative_scores_ranges [of k v q] by (simp add: dict_get_def)
qed

lemma get_val_missing:
  "quant k = None \<or> quant k = Some NaN \<Longrightarrow> get_val quant k d = d"
  by (auto simp: get_val_def)

lemma quantitative_scores_all_missing:
  assumes "\<forall>k \<in> set quantitative_names. quant k = None \<or> quant k = Some NaN"
  shows "quantitative_scores quant =
     [(''market_cap'', Fin 5), (''stock_price'', Fin 5), (''eps_growth_5y'', Fin 0),
      (''roe'', Fin 0), (''roce'', Fin 0), (''operating_margin'', Fin 0),
      (''net_margin'', Fin 0), (''de_ratio'', Fin 0), (''interest_coverage'', Fin 0),
      (''current_ratio'', Fin 0), (''free_cash_flow'', Fin 0),
      (''revenue_growth_5y'', Fin 0), (''profit_growth_5y'', Fin 0),
      (''cash_flow_growth'', Fin 0), (''pe_ratio'', Fin 0), (''peg_ratio'', Fin 0),
      (''pb_ratio'', Fin 0), (''ev_ebitda'', Fin 0), (''liquidity'', Fin 0),
      (''promoter_holding'', Fin 0), (''promoter_holding_growth'', Fin 3)]"
proof -
  have g: "\<forall>k \<in> set quantitative_names. \<forall>d. get_val quant k d = d"
    using assms by (simp add: get_val_missing)
  show ?thesis
    using g [unfolded quantitative_names_def]
    by (simp add: quantitative_scores_def Let_def py_gt_def py_eq_def)
qed

lemma de_ratio_entry:
  "dict_get (quantitative_scores q) ''de_ratio'' =
     Some (if py_lt (get_val q ''de_ratio'' PInf) (Fin 0.5) then Fin 5
           else if py_lt (get_val q ''de_ratio'' PInf) (Fin 1) then Fin 3 else Fin 0)"
  by (simp add: quantitative_scores_def dict_get_def Let_def split del: if_split)

lemma promoter_holding_growth_entry:
  "dict_get (quantitative_scores q) ''promoter_holding_growth'' =
     Some (if py_gt (get_val q ''promoter_holding_growth'' (Fin 0)) (Fin 0) then Fin 5
           else if py_eq (get_val q ''promoter_holding_growth'' (Fin 0)) (Fin 0) then Fin 3
           else Fin 0)"
  by (simp add: quantitative_scores_def dict_get_def Let_def split del: if_split)

lemma cash_flow_growth_entry:
  "dict_get (quantitative_scores q) ''cash_flow_growth'' =
     Some (if py_gt (get_val q ''cash_flow_growth'' (Fin 0)) (Fin 15) then Fin 5
           else if py_gt (get_val q ''cash_flow_growth'' (Fin 0)) (Fin 10) then Fin 3
           else Fin 0)"
  by (simp add: quantitative_scores_def dict_get_def Let_def split del: if_split)

lemma revenue_growth_entry:
  "dict_get (quantitative_scores q) ''revenue_growth_5y'' =
     Some (if py_gt (py_mul (get_val q ''revenue_growth_5y'' (Fin 0)) (Fin 100)) (Fin 15)
           then Fin 5
           else if py_gt (py_mul (get_val q ''revenue_growth_5y'' (Fin 0)) (Fin 100)) (Fin 10)
           then Fin 3
           else Fin 0)"
  by (simp add: quantitative_scores_def dict_get_def Let_def split del: if_split)

lemma market_cap_entry:
  "dict_get (quantitative_scores q) ''market_cap'' =
     Some (if py_lt (get_val q ''market_cap'' (Fin 0)) (Fin (100 * 10 ^ 9)) then Fin 5
           else if py_lt (get_val q ''market_cap'' (Fin 0)) (Fin (500 * 10 ^ 9)) then Fin 4
           else if py_lt (get_val q ''market_cap'' (Fin 0)) (Fin (2000 * 10 ^ 9)) then Fin 3
           else if py_lt (get_val q ''market_cap'' (Fin 0)) (Fin (5000 * 10 ^ 9)) then Fin 2
           else Fin 0)"
  by (simp add: quantitative_scores_def dict_get_def Let_def split del: if_split)

lemma get_val_substitute:
  "spec_default k = d \<Longrightarrow> \<not> isnan d \<Longrightarrow>
   get_val (substitute_defaults quant) k d = get_val quant k d"
  by (cases "quant k") (auto simp: get_val_def substitute_defaults_def)

text \<open>Each call of \<open>get_val\<close> in the source passes the default the specification lists.\<close>

lemma get_val_substitute_code:
  "get_val (substitute_defaults quant) ''market_cap'' (Fin 0) = get_val quant ''market_cap'' (Fin 0)"
  "get_val (substitute_defaults quant) ''stock_price'' (Fin 0) = get_val quant ''stock_price'' (Fin 0)"
  "get_val (substitute_defaults quant) ''eps_growth_5y'' (Fin 0) = get_val quant ''eps_growth_5y'' (Fin 0)"
  "get_val (substitute_defaults quant) ''roe'' (Fin 0) = get_val quant ''roe'' (Fin 0)"
  "get_val (substitute_defaults quant) ''roce'' (Fin 0) = get_val quant ''roce'' (Fin 0)"
  "get_val (substitute_defaults quant) ''operating_margin'' (Fin 0) = get_val quant ''operating_margin'' (Fin 0)"
  "get_val (substitute_defaults quant) ''net_margin'' (Fin 0) = get_val quant ''net_margin'' (Fin 0)"
  "get_val (substitute_defaults quant) ''de_ratio'' PInf = get_val quant ''de_ratio'' PInf"
  "get_val (substitute_defaults quant) ''interest_coverage'' (Fin 0) = get_val quant ''interest_coverage'' (Fin 0)"
  "get_val (substitute_defaults quant) ''current_ratio'' (Fin 0) = get_val quant ''current_ratio'' (Fin 0)"
  "get_val (substitute_defaults quant) ''free_cash_flow'' (Fin 0) = get_val quant ''free_cash_flow'' (Fin 0)"
  "get_val (substitute_defaults quant) ''revenue_growth_5y'' (Fin 0) = get_val quant ''revenue_growth_5y'' (Fin 0)"
  "get_val (substitute_defaults quant) ''profit_growth_5y'' (Fin 0) = get_val quant ''profit_growth_5y'' (Fin 0)"
  "get_val (substitute_defaults quant) ''cash_flow_growth'' (Fin 0) = get_val quant ''cash_flow_growth'' (Fin 0)"
  "get_val (substitute_defaults quant) ''pe_ratio'' PInf = get_val quant ''pe_ratio'' PInf"
  "get_val (substitute_defaults quant) ''peg_ratio'' PInf = get_val quant ''peg_ratio'' PInf"
  "get_val (substitute_defaults quant) ''pb_ratio'' PInf = get_val quant ''pb_ratio'' PInf"
  "get_val (substitute_defaults quant) ''ev_ebitda'' PInf = get_val quant ''ev_ebitda'' PInf"
  "get_val (substitute_defaults quant) ''liquidity'' (Fin 0) = get_val quant ''liquidity'' (Fin 0)"
  "get_val (substitute_defaults quant) ''promoter_holding'' (Fin 0) = get_val quant ''promoter_holding'' (Fin 0)"
  "get_val (substitute_defaults quant) ''promoter_holding_growth'' (Fin 0) = get_val quant ''promoter_holding_growth'' (Fin 0)"
  by (simp_all add: get_val_substitute spec_default_def)

lemma quantitative_scores_substitute:
  "quantitative_scores (substitute_defaults quant) = quantitative_scores quant"
  unfolding quantitative_scores_def get_val_substitute_code ..

section \<open>The totals and the whole function\<close>

lemma foldl_py_add_finite:
  "foldl py_add (Fin a) (map Fin xs) = Fin (a + sum_list xs)"
  by (induction xs arbitrary: a) (simp_all add: add.assoc)

lemma foldl_py_add_nan:
  "NaN \<in> set (acc # vs) \<or> (PInf \<in> set (acc # vs) \<and> NInf \<in> set (acc # vs)) \<Longrightarrow>
   foldl py_add acc vs = NaN"
proof (induction vs arbitrary: acc)
  case Nil
  then show ?case by auto
next
  case (Cons v vs)
  have "NaN \<in> set (py_add acc v # vs) \<or>
        (PInf \<in> set (py_add acc v # vs) \<and> NInf \<in> set (py_add acc v # vs))"
    using Cons.prems by (cases acc; cases v) auto
  then show ?case using Cons.IH [of "py_add acc v"] by simp
qed

lemma foldl_py_add_pinf:
  "PInf \<in> set (acc # vs) \<Longrightarrow> NaN \<notin> set (acc # vs) \<Longrightarrow> NInf \<notin> set (acc # vs) \<Longrightarrow>
   foldl py_add acc vs = PInf"
proof (induction vs arbitrary: acc)
  case Nil
  then show ?case by auto
next
  case (Cons v vs)
  have "PInf \<in> set (py_add acc v # vs) \<and> NaN \<notin> set (py_add acc v # vs) \<and>
        NInf \<notin> set (py_add acc v # vs)"
    using Cons.prems by (cases acc; cases v) auto
  then show ?case using Cons.IH [of "py_add acc v"] by simp
qed

lemma foldl_py_add_ninf:
  "NInf \<in> set (acc # vs) \<Longrightarrow> NaN \<notin> set (acc # vs) \<Longrightarrow> PInf \<notin> set (acc # vs) \<Longrightarrow>
   foldl py_add acc vs = NInf"
proof (induction vs arbitrary: acc)
  case Nil
  then show ?case by auto
next
  case (Cons v vs)
  have "NInf \<in> set (py_add acc v # vs) \<and> NaN \<notin> set (py_add acc v # vs) \<and>
        PInf \<notin> set (py_add acc v # vs)"
    using Cons.prems by (cases acc; cases v) auto
  then show ?case using Cons.IH [of "py_add acc v"] by simp
qed

lemma py_sum_finite: "py_sum (map Fin xs) = Fin (sum_list xs)"
  by (simp add: py_sum_def foldl_py_add_finite)

lemma py_sum_nan:
  "NaN \<in> set vs \<or> (PInf \<in> set vs \<and> NInf \<in> set vs) \<Longrightarrow> py_sum vs = NaN"
  unfolding py_sum_def by (rule foldl_py_add_nan) auto

lemma py_sum_pinf:
  "PInf \<in> set vs \<Longrightarrow> NaN \<notin> set vs \<Longrightarrow> NInf \<notin> set vs \<Longrightarrow> py_sum vs = PInf"
  unfolding py_sum_def by (rule foldl_py_add_pinf) auto

lemma py_sum_ninf:
  "NInf \<in> set vs \<Longrightarrow> NaN \<notin> set vs \<Longrightarrow> PInf \<notin> set vs \<Longrightarrow> py_sum vs = NInf"
  unfolding py_sum_def by (rule foldl_py_add_ninf) auto

lemma percentage_of_total:
  assumes "0 < n"
  shows "py_truediv t (5 * int n) = Inr r \<Longrightarrow>
     py_mul r (Fin 100) =
       (case t of Fin x \<Rightarrow> Fin (x / (5 * real n) * 100)
                | PInf \<Rightarrow> PInf | NInf \<Rightarrow> NInf | NaN \<Rightarrow> NaN)"
  using assms by (cases t) (auto simp: py_truediv_def signed_inf_def)

lemma aggregate_nonempty:
  assumes "d \<noteq> []"
  shows "\<exists>r. py_truediv (py_sum (dict_values d)) (5 * int (length d)) = Inr r \<and>
     aggregate_scores d = Inr (py_sum (dict_values d), py_mul r (Fin 100), d)"
  using assms
  by (simp add: aggregate_scores_def max_possible_score_def py_truediv_def Let_def
      mult.commute)

lemma aggregate_all_missing:
  "aggregate_scores
     [(''market_cap'', Fin 5), (''stock_price'', Fin 5), (''eps_growth_5y'', Fin 0),
      (''roe'', Fin 0), (''roce'', Fin 0), (''operating_margin'', Fin 0),
      (''net_margin'', Fin 0), (''de_ratio'', Fin 0), (''interest_coverage'', Fin 0),
      (''current_ratio'', Fin 0), (''free_cash_flow'', Fin 0),
      (''revenue_growth_5y'', Fin 0), (''profit_growth_5y'', Fin 0),
      (''cash_flow_growth'', Fin 0), (''pe_ratio'', Fin 0), (''peg_ratio'', Fin 0),
      (''pb_ratio'', Fin 0), (''ev_ebitda'', Fin 0), (''liquidity'', Fin 0),
      (''promoter_holding'', Fin 0), (''promoter_holding_growth'', Fin 3)] =
   Inr (Fin 13, Fin (13 / 105 * 100),
     [(''market_cap'', Fin 5), (''stock_price'', Fin 5), (''eps_growth_5y'', Fin 0),
      (''roe'', Fin 0), (''roce'', Fin 0), (''operating_margin'', Fin 0),
      (''net_margin'', Fin 0), (''de_ratio'', Fin 0), (''interest_coverage'', Fin 0),
      (''current_ratio'', Fin 0), (''free_cash_flow'', Fin 0),
      (''revenue_growth_5y'', Fin 0), (''profit_growth_5y'', Fin 0),
      (''cash_flow_growth'', Fin 0), (''pe_ratio'', Fin 0), (''peg_ratio'', Fin 0),
      (''pb_ratio'', Fin 0), (''ev_ebitda'', Fin 0), (''liquidity'', Fin 0),
      (''promoter_holding'', Fin 0), (''promoter_holding_growth'', Fin 3)])"
  by (simp add: aggregate_scores_def max_possible_score_def py_sum_def dict_values_def
      py_truediv_def)

lemma final_scores_nonempty: "final_scores s \<noteq> []"
  unfolding final_scores_def
  by (rule qualitative_loop_nonempty [OF quantitative_scores_nonempty])

lemma returns:
  "\<exists>r. py_truediv (py_sum (dict_values (final_scores s)))
          (5 * int (length (final_scores s))) = Inr r \<and>
    multibagger_score_two_dim s =
      Inr (py_sum (dict_values (final_scores s)), py_mul r (Fin 100), final_scores s)"
  using aggregate_nonempty [OF final_scores_nonempty [of s]]
  by (simp add: multibagger_score_two_dim_def final_scores_def Let_def)

lemma factor_score_of_final: "factor_score_of s k = dict_get (final_scores s) k"
  using returns [of s] by (auto simp: factor_score_of_def)

lemma factor_count_of_final: "factor_count_of s = Some (length (final_scores s))"
  using returns [of s] by (auto simp: factor_count_of_def)

lemma final_entry_not_overridden:
  "k \<notin> set (dict_keys (get_qualitative s)) \<Longrightarrow>
   dict_get (final_scores s) k = dict_get (quantitative_scores (get_quantitative s)) k"
  by (simp add: final_scores_def dict_get_def dict_keys_def qualitative_loop_other)

lemma final_entry_supplied:
  "is_dict (get_qualitative s) \<Longrightarrow> (k, v) \<in> set (get_qualitative s) \<Longrightarrow>
   dict_get (final_scores s) k = Some v"
  by (simp add: final_scores_def dict_get_def is_dict_def qualitative_loop_supplied)

lemma final_keys_distinct: "distinct (dict_keys (final_scores s))"
  unfolding final_scores_def dict_keys_def
  by (rule qualitative_loop_distinct)
     (simp add: quantitative_scores_keys quantitative_names_distinct)

lemma final_keys:
  "set (dict_keys (final_scores s)) =
     set quantitative_names \<union> set (dict_keys (get_qualitative s))"
  using qualitative_loop_keys [of "quantitative_scores (get_quantitative s)" "get_qualitative s"]
  by (simp add: final_scores_def dict_keys_def quantitative_scores_key_set)

lemma final_one_entry:
  "k \<in> set quantitative_names \<union> set (dict_keys (get_qualitative s)) \<Longrightarrow>
   count_list (dict_keys (final_scores s)) k = 1"
  using distinct_one_entry [of "final_scores s" k] final_keys_distinct [of s] final_keys [of s]
  by (simp add: dict_keys_def)

lemma final_length:
  "length (final_scores s) =
     21 + card (set (dict_keys (get_qualitative s)) - set quantitative_names)"
  using qualitative_loop_length [of "quantitative_scores (get_quantitative s)" "get_qualitative s"]
    quantitative_names_distinct
  by (simp add: final_scores_def dict_keys_def quantitative_scores_keys
      quantitative_scores_key_set quantitative_scores_length)

lemma final_scores_no_metrics:
  "final_scores \<lparr>quantitative = None, qualitative = Some [(k, v)]\<rparr> =
     dict_set
     [(''market_cap'', Fin 5), (''stock_price'', Fin 5), (''eps_growth_5y'', Fin 0),
      (''roe'', Fin 0), (''roce'', Fin 0), (''operating_margin'', Fin 0),
      (''net_margin'', Fin 0), (''de_ratio'', Fin 0), (''interest_coverage'', Fin 0),
      (''current_ratio'', Fin 0), (''free_cash_flow'', Fin 0),
      (''revenue_growth_5y'', Fin 0), (''profit_growth_5y'', Fin 0),
      (''cash_flow_growth'', Fin 0), (''pe_ratio'', Fin 0), (''peg_ratio'', Fin 0),
      (''pb_ratio'', Fin 0), (''ev_ebitda'', Fin 0), (''liquidity'', Fin 0),
      (''promoter_holding'', Fin 0), (''promoter_holding_growth'', Fin 3)] k v"
  using quantitative_scores_all_missing [of Map.empty]
  by (simp add: final_scores_def get_quantitative_def get_qualitative_def)

section \<open>The claims\<close>

text \<open>
  Claim C1, as amended. When every quantitative metric is absent (\<^verbatim>\<open>None\<close> or
  not-a-number) and there are no qualitative entries, the function returns the total 13
  and the percentage \<open>13 / 105 * 100\<close>: \<open>market_cap\<close> and \<open>stock_price\<close> score 5 each,
  \<open>promoter_holding_growth\<close> scores 3 (its default 0 meets the test \<^verbatim>\<open>== 0\<close>), and the
  other 18 factors score 0.
\<close>

theorem all_missing_scores_thirteen:
  assumes "\<forall>k \<in> set quantitative_names.
             get_quantitative s k = None \<or> get_quantitative s k = Some NaN"
    and "get_qualitative s = []"
  shows "multibagger_score_two_dim s =
     Inr (Fin 13, Fin (13 / 105 * 100),
     [(''market_cap'', Fin 5), (''stock_price'', Fin 5), (''eps_growth_5y'', Fin 0),
      (''roe'', Fin 0), (''roce'', Fin 0), (''operating_margin'', Fin 0),
      (''net_margin'', Fin 0), (''de_ratio'', Fin 0), (''interest_coverage'', Fin 0),
      (''current_ratio'', Fin 0), (''free_cash_flow'', Fin 0),
      (''revenue_growth_5y'', Fin 0), (''profit_growth_5y'', Fin 0),
      (''cash_flow_growth'', Fin 0), (''pe_ratio'', Fin 0), (''peg_ratio'', Fin 0),
      (''pb_ratio'', Fin 0), (''ev_ebitda'', Fin 0), (''liquidity'', Fin 0),
      (''promoter_holding'', Fin 0), (''promoter_holding_growth'', Fin 3)])"
  using quantitative_scores_all_missing [OF assms(1)] assms(2) aggregate_all_missing
  by (simp add: multibagger_score_two_dim_def Let_def)

text \<open>The amended claim C1 at the input with neither metrics nor qualitative entries.\<close>

theorem all_missing_scores_thirteen_witness:
  "multibagger_score_two_dim \<lparr>quantitative = None, qualitative = None\<rparr> =
     Inr (Fin 13, Fin (13 / 105 * 100),
     [(''market_cap'', Fin 5), (''stock_price'', Fin 5), (''eps_growth_5y'', Fin 0),
      (''roe'', Fin 0), (''roce'', Fin 0), (''operating_margin'', Fin 0),
      (''net_margin'', Fin 0), (''de_ratio'', Fin 0), (''interest_coverage'', Fin 0),
      (''current_ratio'', Fin 0), (''free_cash_flow'', Fin 0),
      (''revenue_growth_5y'', Fin 0), (''profit_growth_5y'', Fin 0),
      (''cash_flow_growth'', Fin 0), (''pe_ratio'', Fin 0), (''peg_ratio'', Fin 0),
      (''pb_ratio'', Fin 0), (''ev_ebitda'', Fin 0), (''liquidity'', Fin 0),
      (''promoter_holding'', Fin 0), (''promoter_holding_growth'', Fin 3)])"
  using all_missing_scores_thirteen [of "\<lparr>quantitative = None, qualitative = None\<rparr>"]
  by (simp add: get_quantitative_def get_qualitative_def)

text \<open>
  Claim C1 as stated fails at that input: the total is 13 and not 10, the percentage is
  \<open>13 / 105 * 100\<close> and not \<open>10 / 105 * 100\<close>, and \<open>promoter_holding_growth\<close> scores 3 and
  not 0.
\<close>

theorem all_missing_total_is_not_ten:
  "total_score_of \<lparr>quantitative = None, qualitative = None\<rparr> = Some (Fin 13) \<and>
   total_score_of \<lparr>quantitative = None, qualitative = None\<rparr> \<noteq> Some (Fin 10) \<and>
   percentage_score_of \<lparr>quantitative = None, qualitative = None\<rparr>
     = Some (Fin (13 / 105 * 100)) \<and>
   percentage_score_of \<lparr>quantitative = None, qualitative = None\<rparr>
     \<noteq> Some (Fin (10 / 105 * 100)) \<and>
   factor_score_of \<lparr>quantitative = None, qualitative = None\<rparr> ''promoter_holding_growth''
     = Some (Fin 3) \<and>
   factor_score_of \<lparr>quantitative = None, qualitative = None\<rparr> ''promoter_holding_growth''
     \<noteq> Some (Fin 0)"
proof -
  have "multibagger_score_two_dim \<lparr>quantitative = None, qualitative = None\<rparr> =
     Inr (Fin 13, Fin (13 / 105 * 100),
     [(''market_cap'', Fin 5), (''stock_price'', Fin 5), (''eps_growth_5y'', Fin 0),
      (''roe'', Fin 0), (''roce'', Fin 0), (''operating_margin'', Fin 0),
      (''net_margin'', Fin 0), (''de_ratio'', Fin 0), (''interest_coverage'', Fin 0),
      (''current_ratio'', Fin 0), (''free_cash_flow'', Fin 0),
      (''revenue_growth_5y'', Fin 0), (''profit_growth_5y'', Fin 0),
      (''cash_flow_growth'', Fin 0), (''pe_ratio'', Fin 0), (''peg_ratio'', Fin 0),
      (''pb_ratio'', Fin 0), (''ev_ebitda'', Fin 0), (''liquidity'', Fin 0),
      (''promoter_holding'', Fin 0), (''promoter_holding_growth'', Fin 3)])"
    using quantitative_scores_all_missing [of Map.empty] aggregate_all_missing
    by (simp add: multibagger_score_two_dim_def Let_def get_quantitative_def
        get_qualitative_def)
  then show ?thesis
    by (simp add: total_score_of_def factor_score_of_def percentage_score_of_def
        dict_get_def)
qed

text \<open>
  Claim C2. For every input the returned total is the sum of the values of the returned
  breakdown, the largest possible score is five times the number \<open>n\<close> of its entries, and
  the returned percentage is \<open>100 * total / (5 * n)\<close>. When all the values are finite the
  total is their sum as real numbers; the source divides the total by \<open>5 * n\<close> first and
  multiplies by 100 after, which over the real numbers is the same value (the rounding
  of doubles, under which the two orders can differ in the last digit, is not part of
  this model). A not-a-number among the values, or both infinities, makes the total and
  the percentage not-a-number; one infinity alone makes both that infinity. The division
  never faults. The breakdown the function builds is never empty, so that the percentage
  of an empty breakdown is 0 is stated of the totals taken of the empty breakdown.
\<close>

theorem total_and_percentage_of_breakdown:
  "(\<exists>total pct breakdown.
      multibagger_score_two_dim s = Inr (total, pct, breakdown) \<and>
      max_possible_score breakdown = 5 * int (length breakdown) \<and>
      (\<forall>xs. dict_values breakdown = map Fin xs \<longrightarrow>
         total = Fin (sum_list xs) \<and>
         pct = Fin (sum_list xs / (5 * real (length breakdown)) * 100) \<and>
         pct = Fin (100 * sum_list xs / (5 * real (length breakdown)))) \<and>
      (NaN \<in> set (dict_values breakdown) \<or>
       PInf \<in> set (dict_values breakdown) \<and> NInf \<in> set (dict_values breakdown) \<longrightarrow>
         total = NaN \<and> pct = NaN) \<and>
      (PInf \<in> set (dict_values breakdown) \<and> NaN \<notin> set (dict_values breakdown) \<and>
       NInf \<notin> set (dict_values breakdown) \<longrightarrow>
         total = PInf \<and> pct = PInf) \<and>
      (NInf \<in> set (dict_values breakdown) \<and> NaN \<notin> set (dict_values breakdown) \<and>
       PInf \<notin> set (dict_values breakdown) \<longrightarrow>
         total = NInf \<and> pct = NInf)) \<and>
   aggregate_scores [] = Inr (Fin 0, Fin 0, [])"
proof -
  let ?b = "final_scores s"
  let ?t = "py_sum (dict_values ?b)"
  obtain r where r: "py_truediv ?t (5 * int (length ?b)) = Inr r"
    and m: "multibagger_score_two_dim s = Inr (?t, py_mul r (Fin 100), ?b)"
    using returns [of s] by blast
  have pos: "0 < length ?b"
    using final_scores_nonempty [of s] by simp
  note p = percentage_of_total [OF pos r]
  have fin: "\<forall>xs. dict_values ?b = map Fin xs \<longrightarrow>
         ?t = Fin (sum_list xs) \<and>
         py_mul r (Fin 100) = Fin (sum_list xs / (5 * real (length ?b)) * 100) \<and>
         py_mul r (Fin 100) = Fin (100 * sum_list xs / (5 * real (length ?b)))"
    using p by (auto simp: py_sum_finite)
  have nan: "NaN \<in> set (dict_values ?b) \<or>
       PInf \<in> set (dict_values ?b) \<and> NInf \<in> set (dict_values ?b) \<longrightarrow>
         ?t = NaN \<and> py_mul r (Fin 100) = NaN"
    using p py_sum_nan [of "dict_values ?b"] by auto
  have pinf: "PInf \<in> set (dict_values ?b) \<and> NaN \<notin> set (dict_values ?b) \<and>
       NInf \<notin> set (dict_values ?b) \<longrightarrow> ?t = PInf \<and> py_mul r (Fin 100) = PInf"
    using p py_sum_pinf [of "dict_values ?b"] by auto
  have ninf: "NInf \<in> set (dict_values ?b) \<and> NaN \<notin> set (dict_values ?b) \<and>
       PInf \<notin> set (dict_values ?b) \<longrightarrow> ?t = NInf \<and> py_mul r (Fin 100) = NInf"
    using p py_sum_ninf [of "dict_values ?b"] by auto
  have mx: "max_possible_score ?b = 5 * int (length ?b)"
    by (simp add: max_possible_score_def)
  have "aggregate_scores [] = Inr (Fin 0, Fin 0, [])"
    by (simp add: aggregate_scores_def max_possible_score_def py_sum_def dict_values_def)
  with m mx fin nan pinf ninf show ?thesis by blast
qed

text \<open>
  Claim C2 at an input without metrics and with the one qualitative entry \<^verbatim>\<open>"moat": 4\<close>:
  22 entries, the total \<open>5 + 5 + 3 + 4 = 17\<close> and the percentage \<open>100 * 17 / (5 * 22)\<close>;
  and with the entry \<^verbatim>\<open>"moat": inf\<close> instead: the total and the percentage are plus
  infinity.
\<close>

theorem total_and_percentage_of_breakdown_witness:
  "(\<exists>total pct breakdown.
      multibagger_score_two_dim \<lparr>quantitative = None, qualitative = Some [(''moat'', Fin 4)]\<rparr>
        = Inr (total, pct, breakdown) \<and>
      length breakdown = 22 \<and> total = Fin 17 \<and> pct = Fin (100 * 17 / (5 * 22))) \<and>
   (\<exists>total pct breakdown.
      multibagger_score_two_dim \<lparr>quantitative = None, qualitative = Some [(''moat'', PInf)]\<rparr>
        = Inr (total, pct, breakdown) \<and>
      length breakdown = 22 \<and> total = PInf \<and> pct = PInf)"
proof -
  let ?m = "\<lparr>quantitative = None, qualitative = Some [(''moat'', Fin 4)]\<rparr>"
  let ?i = "\<lparr>quantitative = None, qualitative = Some [(''moat'', PInf)]\<rparr>"
  obtain total pct breakdown
    where h: "multibagger_score_two_dim ?m = Inr (total, pct, breakdown)"
      and fin: "\<forall>xs. dict_values breakdown = map Fin xs \<longrightarrow>
         total = Fin (sum_list xs) \<and>
         pct = Fin (sum_list xs / (5 * real (length breakdown)) * 100) \<and>
         pct = Fin (100 * sum_list xs / (5 * real (length breakdown)))"
    using total_and_percentage_of_breakdown [of ?m] by blast
  have "breakdown = final_scores ?m"
    using h returns [of ?m] by auto
  then have b: "breakdown =
     [(''market_cap'', Fin 5), (''stock_price'', Fin 5), (''eps_growth_5y'', Fin 0),
      (''roe'', Fin 0), (''roce'', Fin 0), (''operating_margin'', Fin 0),
      (''net_margin'', Fin 0), (''de_ratio'', Fin 0), (''interest_coverage'', Fin 0),
      (''current_ratio'', Fin 0), (''free_cash_flow'', Fin 0),
      (''revenue_growth_5y'', Fin 0), (''profit_growth_5y'', Fin 0),
      (''cash_flow_growth'', Fin 0), (''pe_ratio'', Fin 0), (''peg_ratio'', Fin 0),
      (''pb_ratio'', Fin 0), (''ev_ebitda'', Fin 0), (''liquidity'', Fin 0),
      (''promoter_holding'', Fin 0), (''promoter_holding_growth'', Fin 3)] @ [(''moat'', Fin 4)]"
    by (simp add: final_scores_no_metrics)
  then have "dict_values breakdown =
      map Fin [5, 5, 0, 0, 0, 0, 0, 0, 0, 0, 0, 0, 0, 0, 0, 0, 0, 0, 0, 0, 3, 4]"
    by (simp add: dict_values_def)
  with fin have
    "total = Fin (sum_list [5, 5, 0, 0, 0, 0, 0, 0, 0, 0, 0, 0, 0, 0, 0, 0, 0, 0, 0, 0, 3, 4]) \<and>
     pct = Fin (100 * sum_list [5, 5, 0, 0, 0, 0, 0, 0, 0, 0, 0, 0, 0, 0, 0, 0, 0, 0, 0, 0, 3, 4]
                / (5 * real (length breakdown)))"
    by blast
  with b have first: "length breakdown = 22 \<and> total = Fin 17 \<and> pct = Fin (100 * 17 / (5 * 22))"
    by simp
  obtain total' pct' breakdown'
    where h': "multibagger_score_two_dim ?i = Inr (total', pct', breakdown')"
      and inf: "PInf \<in> set (dict_values breakdown') \<and> NaN \<notin> set (dict_values breakdown') \<and>
         NInf \<notin> set (dict_values breakdown') \<longrightarrow> total' = PInf \<and> pct' = PInf"
    using total_and_percentage_of_breakdown [of ?i] by blast
  have "breakdown' = final_scores ?i"
    using h' returns [of ?i] by auto
  then have b': "breakdown' =
     [(''market_cap'', Fin 5), (''stock_price'', Fin 5), (''eps_growth_5y'', Fin 0),
      (''roe'', Fin 0), (''roce'', Fin 0), (''operating_margin'', Fin 0),
      (''net_margin'', Fin 0), (''de_ratio'', Fin 0), (''interest_coverage'', Fin 0),
      (''current_ratio'', Fin 0), (''free_cash_flow'', Fin 0),
      (''revenue_growth_5y'', Fin 0), (''profit_growth_5y'', Fin 0),
      (''cash_flow_growth'', Fin 0), (''pe_ratio'', Fin 0), (''peg_ratio'', Fin 0),
      (''pb_ratio'', Fin 0), (''ev_ebitda'', Fin 0), (''liquidity'', Fin 0),
      (''promoter_holding'', Fin 0), (''promoter_holding_growth'', Fin 3)] @ [(''moat'', PInf)]"
    by (simp add: final_scores_no_metrics)
  with inf have "length breakdown' = 22 \<and> total' = PInf \<and> pct' = PInf"
    by (simp add: dict_values_def)
  with h h' first show ?thesis by blast
qed

text \<open>
  Claim C3. The claim has \<open>cash_flow_growth\<close> multiplied by 100 before it is compared
  with 15 and 10, as the source does for the other growth factors. The source compares
  the value as it is: a cash flow growth of \<open>0.2\<close> (20 percent, above the threshold of
  15) scores 0, where the same \<open>0.2\<close> as \<open>revenue_growth_5y\<close> scores 5.
\<close>

theorem cash_flow_growth_not_scaled:
  "factor_score_of
     \<lparr>quantitative = Some (map_of [(''cash_flow_growth'', Fin 0.2)]), qualitative = None\<rparr>
     ''cash_flow_growth'' = Some (Fin 0) \<and>
   py_gt (py_mul (Fin 0.2) (Fin 100)) (Fin 15) \<and>
   factor_score_of
     \<lparr>quantitative = Some (map_of [(''revenue_growth_5y'', Fin 0.2)]), qualitative = None\<rparr>
     ''revenue_growth_5y'' = Some (Fin 5)"
  by (simp add: factor_score_of_final final_entry_not_overridden get_qualitative_def
      get_quantitative_def dict_keys_def cash_flow_growth_entry revenue_growth_entry
      get_val_def py_gt_def)

text \<open>
  Claim C4, as amended. A metric that is absent (\<^verbatim>\<open>None\<close>) or not-a-number is replaced
  by its factor's default before the comparison with the thresholds: plus infinity for
  \<open>de_ratio\<close>, \<open>pe_ratio\<close>, \<open>peg_ratio\<close>, \<open>pb_ratio\<close> and \<open>ev_ebitda\<close>, zero for the
  other factors; so scoring a metrics record and scoring it with these defaults written
  in give the same result. A metric that is plus or minus infinity is not replaced: it
  is compared as it is.
\<close>

theorem defaults_for_none_and_nan:
  "multibagger_score_two_dim
     (s\<lparr>quantitative := Some (substitute_defaults (get_quantitative s))\<rparr>)
     = multibagger_score_two_dim s \<and>
   (get_quantitative s k = None \<or> get_quantitative s k = Some NaN \<longrightarrow>
      get_val (get_quantitative s) k d = d \<and>
      substitute_defaults (get_quantitative s) k = Some (spec_default k)) \<and>
   (get_quantitative s k = Some PInf \<longrightarrow>
      get_val (get_quantitative s) k d = PInf \<and>
      substitute_defaults (get_quantitative s) k = Some PInf) \<and>
   (get_quantitative s k = Some NInf \<longrightarrow>
      get_val (get_quantitative s) k d = NInf \<and>
      substitute_defaults (get_quantitative s) k = Some NInf) \<and>
   (get_quantitative s k = Some (Fin r) \<longrightarrow>
      get_val (get_quantitative s) k d = Fin r \<and>
      substitute_defaults (get_quantitative s) k = Some (Fin r))"
proof -
  have "get_quantitative (s\<lparr>quantitative := Some (substitute_defaults (get_quantitative s))\<rparr>)
      = substitute_defaults (get_quantitative s)"
    by (simp add: get_quantitative_def)
  moreover have "get_qualitative
      (s\<lparr>quantitative := Some (substitute_defaults (get_quantitative s))\<rparr>)
      = get_qualitative s"
    by (simp add: get_qualitative_def)
  ultimately have "multibagger_score_two_dim
     (s\<lparr>quantitative := Some (substitute_defaults (get_quantitative s))\<rparr>)
     = multibagger_score_two_dim s"
    by (simp add: multibagger_score_two_dim_def quantitative_scores_substitute)
  then show ?thesis
    by (auto simp: get_val_def substitute_defaults_def)
qed

text \<open>
  The amended claim C4 at a metrics record whose \<open>de_ratio\<close> is not-a-number, whose
  \<open>market_cap\<close> is plus infinity and whose \<open>roe\<close> is absent.
\<close>

theorem defaults_for_none_and_nan_witness:
  "get_val (map_of [(''de_ratio'', NaN), (''market_cap'', PInf)]) ''de_ratio'' PInf = PInf \<and>
   get_val (map_of [(''de_ratio'', NaN), (''market_cap'', PInf)]) ''roe'' (Fin 0) = Fin 0 \<and>
   get_val (map_of [(''de_ratio'', NaN), (''market_cap'', PInf)]) ''market_cap'' (Fin 0) = PInf \<and>
   multibagger_score_two_dim
     \<lparr>quantitative =
        Some (substitute_defaults (map_of [(''de_ratio'', NaN), (''market_cap'', PInf)])),
      qualitative = None\<rparr>
   = multibagger_score_two_dim
     \<lparr>quantitative = Some (map_of [(''de_ratio'', NaN), (''market_cap'', PInf)]),
      qualitative = None\<rparr>"
  using defaults_for_none_and_nan
      [of "\<lparr>quantitative = Some (map_of [(''de_ratio'', NaN), (''market_cap'', PInf)]),
            qualitative = None\<rparr>" "''de_ratio''" PInf 0]
    defaults_for_none_and_nan
      [of "\<lparr>quantitative = Some (map_of [(''de_ratio'', NaN), (''market_cap'', PInf)]),
            qualitative = None\<rparr>" "''roe''" "Fin 0" 0]
    defaults_for_none_and_nan
      [of "\<lparr>quantitative = Some (map_of [(''de_ratio'', NaN), (''market_cap'', PInf)]),
            qualitative = None\<rparr>" "''market_cap''" "Fin 0" 0]
  by (simp add: get_quantitative_def)

text \<open>
  Claim C4 as stated fails for the infinities. A \<open>market_cap\<close> of plus infinity is not
  replaced by the default 0: it scores 0, where the default scores 5. A \<open>de_ratio\<close> of
  minus infinity is not replaced by the default plus infinity: it scores 5, where the
  default scores 0.
\<close>

theorem infinite_metric_is_not_defaulted:
  "get_val (map_of [(''market_cap'', PInf)]) ''market_cap'' (Fin 0) = PInf \<and>
   factor_score_of
     \<lparr>quantitative = Some (map_of [(''market_cap'', PInf)]), qualitative = None\<rparr>
     ''market_cap'' = Some (Fin 0) \<and>
   factor_score_of
     \<lparr>quantitative = Some (map_of [(''market_cap'', Fin 0)]), qualitative = None\<rparr>
     ''market_cap'' = Some (Fin 5) \<and>
   get_val (map_of [(''de_ratio'', NInf)]) ''de_ratio'' PInf = NInf \<and>
   factor_score_of
     \<lparr>quantitative = Some (map_of [(''de_ratio'', NInf)]), qualitative = None\<rparr>
     ''de_ratio'' = Some (Fin 5) \<and>
   factor_score_of
     \<lparr>quantitative = Some (map_of [(''de_ratio'', PInf)]), qualitative = None\<rparr>
     ''de_ratio'' = Some (Fin 0)"
  by (simp add: factor_score_of_final final_entry_not_overridden get_qualitative_def
      get_quantitative_def dict_keys_def market_cap_entry de_ratio_entry get_val_def)

text \<open>
  Claim C5, as amended. When \<open>de_ratio\<close> is a finite number \<open>x\<close> and no qualitative entry
  is named \<open>de_ratio\<close>, its score in the breakdown is 5 for \<open>x < 0.5\<close>, 3 for
  \<open>0.5 \<le> x < 1\<close> and 0 otherwise: at exactly \<open>0.5\<close> the score is 3 (not 5, and not 0),
  and at \<open>0.49999\<close> it is 5.
\<close>

theorem de_ratio_boundary:
  assumes "get_quantitative s ''de_ratio'' = Some (Fin x)"
    and "''de_ratio'' \<notin> set (dict_keys (get_qualitative s))"
  shows "\<exists>total pct breakdown.
      multibagger_score_two_dim s = Inr (total, pct, breakdown) \<and>
      dict_get breakdown ''de_ratio'' =
        Some (if x < 0.5 then Fin 5 else if x < 1 then Fin 3 else Fin 0) \<and>
      (x = 0.5 \<longrightarrow> dict_get breakdown ''de_ratio'' = Some (Fin 3)) \<and>
      (x = 0.49999 \<longrightarrow> dict_get breakdown ''de_ratio'' = Some (Fin 5))"
proof -
  obtain r where m: "multibagger_score_two_dim s =
      Inr (py_sum (dict_values (final_scores s)), py_mul r (Fin 100), final_scores s)"
    using returns [of s] by blast
  have "get_val (get_quantitative s) ''de_ratio'' PInf = Fin x"
    using assms(1) by (simp add: get_val_def)
  then have "dict_get (final_scores s) ''de_ratio'' =
      Some (if x < 0.5 then Fin 5 else if x < 1 then Fin 3 else Fin 0)"
    using final_entry_not_overridden [OF assms(2)] by (simp add: de_ratio_entry)
  with m show ?thesis by simp
qed

text \<open>The amended claim C5 at \<open>de_ratio = 0.5\<close> and at \<open>de_ratio = 0.49999\<close>.\<close>

theorem de_ratio_boundary_witness:
  "(\<exists>total pct breakdown.
      multibagger_score_two_dim
        \<lparr>quantitative = Some (map_of [(''de_ratio'', Fin 0.5)]), qualitative = None\<rparr>
        = Inr (total, pct, breakdown) \<and>
      dict_get breakdown ''de_ratio'' = Some (Fin 3)) \<and>
   (\<exists>total pct breakdown.
      multibagger_score_two_dim
        \<lparr>quantitative = Some (map_of [(''de_ratio'', Fin 0.49999)]), qualitative = None\<rparr>
        = Inr (total, pct, breakdown) \<and>
      dict_get breakdown ''de_ratio'' = Some (Fin 5))"
  using de_ratio_boundary
      [of "\<lparr>quantitative = Some (map_of [(''de_ratio'', Fin 0.5)]), qualitative = None\<rparr>" "0.5"]
    de_ratio_boundary
      [of "\<lparr>quantitative = Some (map_of [(''de_ratio'', Fin 0.49999)]), qualitative = None\<rparr>"
          "0.49999"]
  by (simp add: get_quantitative_def get_qualitative_def dict_keys_def)

text \<open>
  Claim C5 as stated fails at \<open>de_ratio = 0.5\<close> with no qualitative entries: the score
  is 3, not 0.
\<close>

theorem de_ratio_half_scores_three:
  "factor_score_of
     \<lparr>quantitative = Some (map_of [(''de_ratio'', Fin 0.5)]), qualitative = None\<rparr>
     ''de_ratio'' = Some (Fin 3) \<and>
   factor_score_of
     \<lparr>quantitative = Some (map_of [(''de_ratio'', Fin 0.5)]), qualitative = None\<rparr>
     ''de_ratio'' \<noteq> Some (Fin 0)"
  by (simp add: factor_score_of_final final_entry_not_overridden get_qualitative_def
      get_quantitative_def dict_keys_def de_ratio_entry get_val_def)

text \<open>
  Claim C6, as amended. For every input the breakdown has exactly one entry for each of
  the 21 quantitative factor names, whether or not the metric is there. The score of a
  quantitative factor whose name is not the key of a qualitative entry is one of 0, 3
  and 5; one of 0, 2, 3, 4 and 5 for \<open>market_cap\<close>; one of 0, 3, 4 and 5 for
  \<open>stock_price\<close>.
\<close>

theorem quantitative_entries_once_and_in_range:
  assumes "k \<in> set quantitative_names"
  shows "\<exists>total pct breakdown.
      multibagger_score_two_dim s = Inr (total, pct, breakdown) \<and>
      count_list (dict_keys breakdown) k = 1 \<and>
      (k \<notin> set (dict_keys (get_qualitative s)) \<longrightarrow>
         (\<exists>v. dict_get breakdown k = Some v \<and>
              v \<in> (if k = ''market_cap'' then {Fin 0, Fin 2, Fin 3, Fin 4, Fin 5}
                   else if k = ''stock_price'' then {Fin 0, Fin 3, Fin 4, Fin 5}
                   else {Fin 0, Fin 3, Fin 5})))"
proof -
  obtain r where m: "multibagger_score_two_dim s =
      Inr (py_sum (dict_values (final_scores s)), py_mul r (Fin 100), final_scores s)"
    using returns [of s] by blast
  have one: "count_list (dict_keys (final_scores s)) k = 1"
    using assms by (simp add: final_one_entry)
  have "k \<notin> set (dict_keys (get_qualitative s)) \<longrightarrow>
         (\<exists>v. dict_get (final_scores s) k = Some v \<and>
              v \<in> (if k = ''market_cap'' then {Fin 0, Fin 2, Fin 3, Fin 4, Fin 5}
                   else if k = ''stock_price'' then {Fin 0, Fin 3, Fin 4, Fin 5}
                   else {Fin 0, Fin 3, Fin 5}))"
    using quantitative_entry_range [OF assms, of "get_quantitative s"]
    by (simp add: final_entry_not_overridden)
  with m one show ?thesis by simp
qed

text \<open>
  The amended claim C6 for \<open>market_cap\<close>, at a metrics record with a market
  capitalisation of \<open>300 * 10 ^ 9\<close> and the qualitative entry \<^verbatim>\<open>"roe": 7\<close>.
\<close>

theorem quantitative_entries_once_and_in_range_witness:
  "''market_cap'' \<in> set quantitative_names \<and>
   ''market_cap'' \<notin> set (dict_keys (get_qualitative
      \<lparr>quantitative = Some (map_of [(''market_cap'', Fin (300 * 10 ^ 9))]),
       qualitative = Some [(''roe'', Fin 7)]\<rparr>)) \<and>
   (\<exists>total pct breakdown.
      multibagger_score_two_dim
        \<lparr>quantitative = Some (map_of [(''market_cap'', Fin (300 * 10 ^ 9))]),
         qualitative = Some [(''roe'', Fin 7)]\<rparr>
        = Inr (total, pct, breakdown) \<and>
      count_list (dict_keys breakdown) ''market_cap'' = 1 \<and>
      (\<exists>v. dict_get breakdown ''market_cap'' = Some v \<and>
           v \<in> {Fin 0, Fin 2, Fin 3, Fin 4, Fin 5}))"
  using quantitative_entries_once_and_in_range
      [of "''market_cap''"
          "\<lparr>quantitative = Some (map_of [(''market_cap'', Fin (300 * 10 ^ 9))]),
            qualitative = Some [(''roe'', Fin 7)]\<rparr>"]
  by (simp add: quantitative_names_def get_qualitative_def dict_keys_def)

text \<open>
  Claim C6 as stated fails when a qualitative entry has the name of a quantitative
  factor: with the qualitative entry \<^verbatim>\<open>"roe": 7\<close> the score of \<open>roe\<close> in the breakdown
  is 7, which is none of 0, 3 and 5.
\<close>

theorem overridden_score_out_of_range:
  "''roe'' \<in> set quantitative_names \<and>
   factor_score_of \<lparr>quantitative = None, qualitative = Some [(''roe'', Fin 7)]\<rparr> ''roe''
     = Some (Fin 7) \<and>
   Fin 7 \<notin> {Fin 0, Fin 3, Fin 5}"
proof -
  let ?s = "\<lparr>quantitative = None, qualitative = Some [(''roe'', Fin 7)]\<rparr>"
  have q: "get_qualitative ?s = [(''roe'', Fin 7)]"
    by (simp add: get_qualitative_def)
  have "dict_get (final_scores ?s) ''roe'' = Some (Fin 7)"
    using final_entry_supplied [of ?s "''roe''" "Fin 7"] q by (simp add: is_dict_def)
  then show ?thesis
    by (simp add: factor_score_of_final quantitative_names_def)
qed

text \<open>
  Claim C7. When the qualitative entries form a dictionary, each of them is in the
  returned breakdown with the value the caller gave, whatever that value is. Scoring an
  empty metrics record with the one qualitative entry \<^verbatim>\<open>"moat": 4\<close> returns a breakdown
  with \<^verbatim>\<open>"moat": 4\<close> and 22 entries.
\<close>

theorem qualitative_entries_passed_through:
  "(is_dict (get_qualitative s) \<longrightarrow>
     (\<exists>total pct breakdown.
        multibagger_score_two_dim s = Inr (total, pct, breakdown) \<and>
        (\<forall>(k, v) \<in> set (get_qualitative s). dict_get breakdown k = Some v))) \<and>
   factor_score_of
     \<lparr>quantitative = Some Map.empty, qualitative = Some [(''moat'', Fin 4)]\<rparr> ''moat''
     = Some (Fin 4) \<and>
   factor_count_of
     \<lparr>quantitative = Some Map.empty, qualitative = Some [(''moat'', Fin 4)]\<rparr>
     = Some 22"
proof -
  let ?m = "\<lparr>quantitative = Some Map.empty, qualitative = Some [(''moat'', Fin 4)]\<rparr>"
  obtain r where m: "multibagger_score_two_dim s =
      Inr (py_sum (dict_values (final_scores s)), py_mul r (Fin 100), final_scores s)"
    using returns [of s] by blast
  have a: "is_dict (get_qualitative s) \<longrightarrow>
     (\<exists>total pct breakdown.
        multibagger_score_two_dim s = Inr (total, pct, breakdown) \<and>
        (\<forall>(k, v) \<in> set (get_qualitative s). dict_get breakdown k = Some v))"
    using m final_entry_supplied [of s] by auto
  have q: "get_qualitative ?m = [(''moat'', Fin 4)]"
    by (simp add: get_qualitative_def)
  have "dict_get (final_scores ?m) ''moat'' = Some (Fin 4)"
    using final_entry_supplied [of ?m "''moat''" "Fin 4"] q by (simp add: is_dict_def)
  then have b: "factor_score_of ?m ''moat'' = Some (Fin 4)"
    by (simp add: factor_score_of_final)
  have "length (final_scores ?m) = 22"
    using final_length [of ?m] q by (simp add: dict_keys_def quantitative_names_def)
  then have c: "factor_count_of ?m = Some 22"
    by (simp add: factor_count_of_final)
  from a b c show ?thesis by blast
qed

text \<open>Claim C7 at the input with the two qualitative entries \<^verbatim>\<open>"moat": 4\<close> and \<^verbatim>\<open>"esg": 9\<close>.\<close>

theorem qualitative_entries_passed_through_witness:
  "is_dict (get_qualitative
      \<lparr>quantitative = None, qualitative = Some [(''moat'', Fin 4), (''esg'', Fin 9)]\<rparr>) \<and>
   (\<exists>total pct breakdown.
      multibagger_score_two_dim
        \<lparr>quantitative = None, qualitative = Some [(''moat'', Fin 4), (''esg'', Fin 9)]\<rparr>
        = Inr (total, pct, breakdown) \<and>
      dict_get breakdown ''moat'' = Some (Fin 4) \<and>
      dict_get breakdown ''esg'' = Some (Fin 9))"
  using qualitative_entries_passed_through
    [of "\<lparr>quantitative = None, qualitative = Some [(''moat'', Fin 4), (''esg'', Fin 9)]\<rparr>"]
  by (simp add: get_qualitative_def is_dict_def)

text \<open>
  Claim C8. The function returns a total, a percentage and a breakdown on every input:
  whatever the metrics are (absent, not-a-number, infinite or finite) and whatever the
  qualitative entries are, the one division of the source is never reached with a zero
  divisor.
\<close>

theorem scoring_always_returns:
  "\<exists>total pct breakdown. multibagger_score_two_dim s = Inr (total, pct, breakdown)"
  using returns [of s] by blast

text \<open>
  Claim C9, as amended. When \<open>promoter_holding_growth\<close> is absent or not-a-number and
  no qualitative entry is named \<open>promoter_holding_growth\<close>, its score in the breakdown
  is 3.
\<close>

theorem unknown_promoter_growth_scores_three:
  assumes "get_quantitative s ''promoter_holding_growth'' = None \<or>
           get_quantitative s ''promoter_holding_growth'' = Some NaN"
    and "''promoter_holding_growth'' \<notin> set (dict_keys (get_qualitative s))"
  shows "\<exists>total pct breakdown.
      multibagger_score_two_dim s = Inr (total, pct, breakdown) \<and>
      dict_get breakdown ''promoter_holding_growth'' = Some (Fin 3)"
proof -
  obtain r where m: "multibagger_score_two_dim s =
      Inr (py_sum (dict_values (final_scores s)), py_mul r (Fin 100), final_scores s)"
    using returns [of s] by blast
  have "get_val (get_quantitative s) ''promoter_holding_growth'' (Fin 0) = Fin 0"
    using assms(1) by (rule get_val_missing)
  then have "dict_get (final_scores s) ''promoter_holding_growth'' = Some (Fin 3)"
    using final_entry_not_overridden [OF assms(2)]
    by (simp add: promoter_holding_growth_entry py_gt_def py_eq_def)
  with m show ?thesis by simp
qed

text \<open>
  The amended claim C9 at a metrics record whose \<open>promoter_holding_growth\<close> is
  not-a-number, with one qualitative entry of another name.
\<close>

theorem unknown_promoter_growth_scores_three_witness:
  "\<exists>total pct breakdown.
      multibagger_score_two_dim
        \<lparr>quantitative = Some (map_of [(''promoter_holding_growth'', NaN)]),
         qualitative = Some [(''moat'', Fin 4)]\<rparr>
        = Inr (total, pct, breakdown) \<and>
      dict_get breakdown ''promoter_holding_growth'' = Some (Fin 3)"
  using unknown_promoter_growth_scores_three
      [of "\<lparr>quantitative = Some (map_of [(''promoter_holding_growth'', NaN)]),
            qualitative = Some [(''moat'', Fin 4)]\<rparr>"]
  by (simp add: get_quantitative_def get_qualitative_def dict_keys_def)

text \<open>
  Claim C9 as stated fails when the caller passes a qualitative entry of the same name:
  with \<open>promoter_holding_growth\<close> absent from the metrics and the qualitative entry
  \<^verbatim>\<open>"promoter_holding_growth": 0\<close>, the score in the breakdown is 0, not 3.
\<close>

theorem overridden_promoter_growth_is_not_three:
  "get_quantitative
     \<lparr>quantitative = None, qualitative = Some [(''promoter_holding_growth'', Fin 0)]\<rparr>
     ''promoter_holding_growth'' = None \<and>
   factor_score_of
     \<lparr>quantitative = None, qualitative = Some [(''promoter_holding_growth'', Fin 0)]\<rparr>
     ''promoter_holding_growth'' = Some (Fin 0) \<and>
   factor_score_of
     \<lparr>quantitative = None, qualitative = Some [(''promoter_holding_growth'', Fin 0)]\<rparr>
     ''promoter_holding_growth'' \<noteq> Some (Fin 3)"
proof -
  let ?s = "\<lparr>quantitative = None, qualitative = Some [(''promoter_holding_growth'', Fin 0)]\<rparr>"
  have q: "get_qualitative ?s = [(''promoter_holding_growth'', Fin 0)]"
    by (simp add: get_qualitative_def)
  have "dict_get (final_scores ?s) ''promoter_holding_growth'' = Some (Fin 0)"
    using final_entry_supplied [of ?s "''promoter_holding_growth''" "Fin 0"] q
    by (simp add: is_dict_def)
  then show ?thesis
    by (simp add: factor_score_of_final get_quantitative_def)
qed

text \<open>
  Claim C10. When the qualitative entries form a dictionary, an entry whose key is the
  name of a quantitative factor replaces that factor's score: the breakdown has the
  caller's value under that name and one entry of that name. The number of entries,
  and so the divisor of the percentage, is 21 plus the number of qualitative keys that
  are not names of quantitative factors.
\<close>

theorem colliding_key_overwrites:
  assumes "is_dict (get_qualitative s)"
  shows "\<exists>total pct breakdown.
      multibagger_score_two_dim s = Inr (total, pct, breakdown) \<and>
      (\<forall>(k, v) \<in> set (get_qualitative s).
          k \<in> set quantitative_names \<longrightarrow>
            dict_get breakdown k = Some v \<and> count_list (dict_keys breakdown) k = 1) \<and>
      length breakdown =
        21 + length (filter (\<lambda>k. k \<notin> set quantitative_names)
                       (dict_keys (get_qualitative s))) \<and>
      max_possible_score breakdown =
        5 * (21 + int (length (filter (\<lambda>k. k \<notin> set quantitative_names)
                                  (dict_keys (get_qualitative s)))))"
proof -
  obtain r where m: "multibagger_score_two_dim s =
      Inr (py_sum (dict_values (final_scores s)), py_mul r (Fin 100), final_scores s)"
    using returns [of s] by blast
  have d: "distinct (dict_keys (get_qualitative s))"
    using assms by (simp add: is_dict_def dict_keys_def)
  have len: "length (final_scores s) =
      21 + length (filter (\<lambda>k. k \<notin> set quantitative_names) (dict_keys (get_qualitative s)))"
    using final_length [of s] card_noncolliding [OF d, of "set quantitative_names"] by simp
  have e: "\<forall>(k, v) \<in> set (get_qualitative s).
          k \<in> set quantitative_names \<longrightarrow>
            dict_get (final_scores s) k = Some v \<and>
            count_list (dict_keys (final_scores s)) k = 1"
    using final_entry_supplied [OF assms] final_one_entry [of _ s] by auto
  show ?thesis
    using m len e by (simp add: max_possible_score_def)
qed

text \<open>
  Claim C10 at the input with the qualitative entries \<^verbatim>\<open>"roe": 7\<close> and \<^verbatim>\<open>"moat": 4\<close>:
  22 entries, not 23.
\<close>

theorem colliding_key_overwrites_witness:
  "is_dict (get_qualitative
      \<lparr>quantitative = None, qualitative = Some [(''roe'', Fin 7), (''moat'', Fin 4)]\<rparr>) \<and>
   (\<exists>total pct breakdown.
      multibagger_score_two_dim
        \<lparr>quantitative = None, qualitative = Some [(''roe'', Fin 7), (''moat'', Fin 4)]\<rparr>
        = Inr (total, pct, breakdown) \<and>
      dict_get breakdown ''roe'' = Some (Fin 7) \<and>
      count_list (dict_keys breakdown) ''roe'' = 1 \<and>
      length breakdown = 22 \<and>
      max_possible_score breakdown = 110)"
  using colliding_key_overwrites
    [of "\<lparr>quantitative = None, qualitative = Some [(''roe'', Fin 7), (''moat'', Fin 4)]\<rparr>"]
  by (simp add: get_qualitative_def is_dict_def dict_keys_def quantitative_names_def)

end
